theory Spec2Isabelle
  imports Complex_Main "HOL-Library.Sublist"
begin

section \<open>Strings\<close>

text \<open>
  A JavaScript string is a sequence of UTF-16 code units. It is modelled as a \<open>string\<close>
  (a \<open>char list\<close>), one \<open>char\<close> per code unit, so the model covers the strings whose code
  units are below 256 (the whole catalog of \<open>src/src/App.tsx\<close> is ASCII). \<open>length\<close> is
  the \<open>.length\<close> of the source.
\<close>

definition isDigit :: "char \<Rightarrow> bool" where
  \<comment> \<open>the regular-expression class \<open>\d\<close>: the ten ASCII digits\<close>
  "isDigit c = (c \<in> set ''0123456789'')"

definition isWhiteSpace :: "char \<Rightarrow> bool" where
  \<comment> \<open>the class \<open>\s\<close>, also what \<open>trim\<close> strips: tab, line feed, vertical tab, form feed,
      carriage return, space and no-break space are the ones below 256\<close>
  "isWhiteSpace c =
     (c \<in> set [CHR 0x09, CHR 0x0A, CHR 0x0B, CHR 0x0C, CHR 0x0D, CHR 0x20, CHR 0xA0])"

definition trim :: "string \<Rightarrow> string" where
  "trim s = rev (dropWhile isWhiteSpace (rev (dropWhile isWhiteSpace s)))"

definition upperLetters :: "char list" where
  \<comment> \<open>the code units below 256 that \<open>toLowerCase\<close> changes: A-Z, and the Latin-1 capitals
      U+00C0..U+00DE without the multiplication sign U+00D7\<close>
  "upperLetters = ''ABCDEFGHIJKLMNOPQRSTUVWXYZ'' @
     [CHR 0xC0, CHR 0xC1, CHR 0xC2, CHR 0xC3, CHR 0xC4, CHR 0xC5, CHR 0xC6, CHR 0xC7,
     CHR 0xC8, CHR 0xC9, CHR 0xCA, CHR 0xCB, CHR 0xCC, CHR 0xCD, CHR 0xCE, CHR 0xCF, CHR
     0xD0, CHR 0xD1, CHR 0xD2, CHR 0xD3, CHR 0xD4, CHR 0xD5, CHR 0xD6, CHR 0xD8, CHR
     0xD9, CHR 0xDA, CHR 0xDB, CHR 0xDC, CHR 0xDD, CHR 0xDE]"

definition lowerLetters :: "char list" where
  \<comment> \<open>their lower-case forms, in the same order (each is 32 above its capital)\<close>
  "lowerLetters = ''abcdefghijklmnopqrstuvwxyz'' @
     [CHR 0xE0, CHR 0xE1, CHR 0xE2, CHR 0xE3, CHR 0xE4, CHR 0xE5, CHR 0xE6, CHR 0xE7,
     CHR 0xE8, CHR 0xE9, CHR 0xEA, CHR 0xEB, CHR 0xEC, CHR 0xED, CHR 0xEE, CHR 0xEF, CHR
     0xF0, CHR 0xF1, CHR 0xF2, CHR 0xF3, CHR 0xF4, CHR 0xF5, CHR 0xF6, CHR 0xF8, CHR
     0xF9, CHR 0xFA, CHR 0xFB, CHR 0xFC, CHR 0xFD, CHR 0xFE]"

definition lowerChar :: "char \<Rightarrow> char" where
  "lowerChar c = (case map_of (zip upperLetters lowerLetters) c of Some d \<Rightarrow> d | None \<Rightarrow> c)"

definition toLowerCase :: "string \<Rightarrow> string" where
  "toLowerCase s = map lowerChar s"

definition upperAscii :: "char \<Rightarrow> char" where
  \<comment> \<open>the canonical form that a regular expression with the flag \<open>i\<close> compares; among the
      code units below 256 only a-z canonicalise to an ASCII letter other than themselves\<close>
  "upperAscii c =
     (case map_of (zip ''abcdefghijklmnopqrstuvwxyz'' ''ABCDEFGHIJKLMNOPQRSTUVWXYZ'') c of
        Some d \<Rightarrow> d | None \<Rightarrow> c)"

definition testIgnoreCase :: "string \<Rightarrow> string \<Rightarrow> bool" where
  \<comment> \<open>\<open>/^pat$/i.test(s)\<close> for a pattern \<open>pat\<close> of ASCII letters\<close>
  "testIgnoreCase pat s = (map upperAscii s = map upperAscii pat)"

fun includes_str :: "string \<Rightarrow> string \<Rightarrow> bool" where
  \<comment> \<open>\<open>s.includes(q)\<close>: \<open>q\<close> occurs in \<open>s\<close> as a contiguous run\<close>
  "includes_str [] q = (q = [])"
| "includes_str (c # s) q = (prefix q (c # s) \<or> includes_str s q)"

fun join :: "string \<Rightarrow> string list \<Rightarrow> string" where
  \<comment> \<open>\<open>parts.join(sep)\<close>\<close>
  "join sep [] = []"
| "join sep [p] = p"
| "join sep (p # ps) = p @ sep @ join sep ps"

section \<open>JSON values\<close>

text \<open>
  What \<open>JSON.parse\<close> returns and \<open>JSON.stringify\<close> takes. \<open>JObj\<close> lists the properties of
  an object, each key once. The local storage of the browser keeps strings; where the
  source stores \<open>JSON.stringify(v)\<close> the model keeps \<open>v\<close>.
\<close>

datatype json =
    JNull
  | JBool bool
  | JNum real
  | JStr string
  | JArr "json list"
  | JObj "(string \<times> json) list"

section \<open>Availability store\<close>

text \<open>
  \<^verbatim>\<open>type AvailabilityMap = Record<string, false>; // only store unavailable overrides\<close>
  The state \<open>availability\<close> is a JavaScript object. It is modelled by its own enumerable
  properties, a map from property names to values: these are what \<open>{ ...prev }\<close> copies and
  what \<open>JSON.stringify\<close> writes. The values are JSON values, since the object read back
  from storage holds whatever was stored. Reading a name that the object does not have
  as its own yields \<open>undefined\<close> or an inherited member of \<open>Object.prototype\<close>, neither of
  which is \<open>false\<close>, and is \<open>None\<close> in the model.
\<close>

type_synonym AvailabilityMap = "string \<rightharpoonup> json"

fun strictEqualsFalse :: "json option \<Rightarrow> bool" where
  \<comment> \<open>\<open>v === false\<close>\<close>
  "strictEqualsFalse (Some (JBool b)) = (\<not> b)"
| "strictEqualsFalse _ = False"

text \<open>\<^verbatim>\<open>const isAvailable = (itemId: string) => availability[itemId] !== false;\<close>\<close>

definition isAvailable :: "AvailabilityMap \<Rightarrow> string \<Rightarrow> bool" where
  "isAvailable availability itemId = (\<not> strictEqualsFalse (availability itemId))"

text \<open>
  \<^verbatim>\<open>
  function setItemAvailable(itemId: string, nextAvailable: boolean) {
    setAvailability((prev) => {
      const next: AvailabilityMap = { ...prev };
      if (nextAvailable) { delete next[itemId]; } else { next[itemId] = false; }
      return next;
    });
  }
  \<close>
  \<open>next\<close> is a plain object with the own properties of \<open>prev\<close>. \<open>delete\<close> removes an own
  property, if there is one. The assignment stores an own property, with one exception
  among all property names: \<open>__proto__\<close>. When \<open>next\<close> has no own property of that name,
  the assignment calls the setter inherited from \<open>Object.prototype\<close>, which ignores a
  value that is not an object, so nothing is stored. When \<open>next\<close> has it as an own
  property (\<open>JSON.parse\<close> and the spread create it as one), the assignment writes it.
\<close>

definition setItemAvailable :: "string \<Rightarrow> bool \<Rightarrow> AvailabilityMap \<Rightarrow> AvailabilityMap" where
  "setItemAvailable itemId nextAvailable prev =
     (let next = prev
      in if nextAvailable then next(itemId := None)
         else if itemId = ''__proto__'' \<and> next itemId = None then next
         else next(itemId \<mapsto> JBool False))"

subsection \<open>Reading the stored overlay at startup\<close>

text \<open>
  \<^verbatim>\<open>
  const [availability, setAvailability] = useState<AvailabilityMap>(() => {
    try {
      const raw = localStorage.getItem(AVAILABILITY_KEY);
      if (!raw) return {};
      const parsed = JSON.parse(raw) as unknown;
      if (parsed && typeof parsed === "object") return parsed as AvailabilityMap;
      return {};
    } catch {
      return {};
    }
  });
  \<close>
  The initializer depends on the browser through two calls. \<open>storage_read\<close> gives what
  they do: \<open>getItem\<close> throws, returns \<open>null\<close>, or returns a text, and then \<open>JSON.parse\<close> of
  that text throws or returns a value.
\<close>

datatype parse_result = ParseThrows | Parsed json

datatype storage_read = GetItemThrows | GetItemNull | GetItem string parse_result

datatype exn = StorageError | SyntaxError

fun truthy :: "json \<Rightarrow> bool" where
  "truthy JNull = False"
| "truthy (JBool b) = b"
| "truthy (JNum x) = (x \<noteq> 0)"
| "truthy (JStr s) = (s \<noteq> [])"
| "truthy (JArr vs) = True"
| "truthy (JObj kvs) = True"

fun typeof :: "json \<Rightarrow> string" where
  "typeof JNull = ''object''"
| "typeof (JBool b) = ''boolean''"
| "typeof (JNum x) = ''number''"
| "typeof (JStr s) = ''string''"
| "typeof (JArr vs) = ''object''"
| "typeof (JObj kvs) = ''object''"

fun natToString :: "nat \<Rightarrow> string" where
  \<comment> \<open>the decimal numeral of an array index, its property name\<close>
  "natToString n =
     (if n < 10 then [''0123456789'' ! n]
      else natToString (n div 10) @ [''0123456789'' ! (n mod 10)])"

declare natToString.simps [simp del]

fun ownProperties :: "json \<Rightarrow> AvailabilityMap" where
  \<comment> \<open>the own enumerable properties of a value whose \<open>typeof\<close> is \<open>object\<close>: the entries of
      an object, the elements of an array under their indices\<close>
  "ownProperties (JObj kvs) = map_of kvs"
| "ownProperties (JArr vs) = map_of (zip (map natToString [0..<length vs]) vs)"
| "ownProperties _ = Map.empty"

definition initAvailability_try :: "storage_read \<Rightarrow> exn + AvailabilityMap" where
  \<comment> \<open>the body of the \<open>try\<close>; \<open>Inl\<close> is an exception thrown in it\<close>
  "initAvailability_try rd =
     (case rd of
        GetItemThrows \<Rightarrow> Inl StorageError
      | GetItemNull \<Rightarrow> Inr Map.empty
      | GetItem raw p \<Rightarrow>
          if raw = [] then Inr Map.empty
          else (case p of
                  ParseThrows \<Rightarrow> Inl SyntaxError
                | Parsed parsed \<Rightarrow>
                    if truthy parsed \<and> typeof parsed = ''object''
                    then Inr (ownProperties parsed)
                    else Inr Map.empty))"

definition initAvailability :: "storage_read \<Rightarrow> AvailabilityMap" where
  \<comment> \<open>the whole initializer: \<open>catch { return {}; }\<close>\<close>
  "initAvailability rd =
     (case initAvailability_try rd of Inl e \<Rightarrow> Map.empty | Inr m \<Rightarrow> m)"

definition specOverlayShape :: "parse_result \<Rightarrow> bool" where
  \<comment> \<open>the stored shape in the words of the specification: a JSON object mapping
      item-identifier strings to the literal value \<open>false\<close>\<close>
  "specOverlayShape p =
     (case p of
        Parsed (JObj kvs) \<Rightarrow> list_all (\<lambda>kv. snd kv = JBool False) kvs
      | _ \<Rightarrow> False)"

section \<open>Owner login\<close>

text \<open>
  \<^verbatim>\<open>
  function normalizeIndianMobile(input: string): string | null {
    const digits = input.replace(/\D+/g, "");
    if (digits.length === 10) return digits;
    if (digits.length === 12 && digits.startsWith("91")) return digits.slice(2);
    if (digits.length === 11 && digits.startsWith("0")) return digits.slice(1);
    return null;
  }
  \<close>
  \<open>null\<close> is \<open>None\<close>.
\<close>

definition normalizeIndianMobile :: "string \<Rightarrow> string option" where
  "normalizeIndianMobile input =
     (let digits = filter isDigit input
      in if length digits = 10 then Some digits
         else if length digits = 12 \<and> prefix ''91'' digits then Some (drop 2 digits)
         else if length digits = 11 \<and> prefix ''0'' digits then Some (drop 1 digits)
         else None)"

definition OWNER_MOBILES :: "string list" where
  "OWNER_MOBILES = [''9110162059'', ''9170820279'', ''8298357035'']"

text \<open>
  \<^verbatim>\<open>
  const submit = () => {
    const normalized = normalizeIndianMobile(value);
    if (!normalized) { setError("Enter a valid Indian mobile number"); return; }
    if (!OWNER_MOBILES.includes(normalized ...)) { setError("Not authorized"); return; }
    onLogin(normalized);
  };
  \<close>
  \<open>submit\<close> ends in one of two calls, \<open>setError\<close> with a message or \<open>onLogin\<close> with the
  normalized number. \<open>!normalized\<close> holds of \<open>null\<close> and of the empty string. The two
  messages are the errors that the specification calls \<open>InvalidFormat\<close> and
  \<open>NotAuthorized\<close>.
\<close>

definition InvalidFormat :: string where
  "InvalidFormat = ''Enter a valid Indian mobile number''"

definition NotAuthorized :: string where
  "NotAuthorized = ''Not authorized''"

datatype submit_call = SetError string | OnLogin string

definition submit :: "string \<Rightarrow> submit_call" where
  "submit val =
     (case normalizeIndianMobile val of
        None \<Rightarrow> SetError InvalidFormat
      | Some normalized \<Rightarrow>
          if normalized = [] then SetError InvalidFormat
          else if normalized \<notin> set OWNER_MOBILES then SetError NotAuthorized
          else OnLogin normalized)"

text \<open>
  The state that a login touches: the error line of the login form, the session
  (\<open>ownerMobile\<close>, \<open>null\<close> when logged out), whether the form is open, the toast, and the
  value stored under \<open>OWNER_SESSION_KEY\<close>.
  \<^verbatim>\<open>
  function ownerLogin(mobile: string) {
    setOwnerMobile(mobile);
    try { localStorage.setItem(OWNER_SESSION_KEY, JSON.stringify({ mobile })); }
    catch { /* ignore */ }
    setOwnerLoginOpen(false);
    showToast("Owner mode enabled");
  }
  \<close>
  \<open>setItem\<close> may throw (storage full or disabled); \<open>storageWritable\<close> says whether it
  succeeds. The timer that clears the toast is not modelled.
\<close>

record owner_state =
  loginError :: "string option"
  ownerMobile :: "string option"
  ownerLoginOpen :: bool
  toast :: "string option"
  sessionItem :: "json option"

definition ownerLogin :: "bool \<Rightarrow> string \<Rightarrow> owner_state \<Rightarrow> owner_state" where
  "ownerLogin storageWritable mobile st =
     st\<lparr>ownerMobile := Some mobile,
        sessionItem := (if storageWritable then Some (JObj [(''mobile'', JStr mobile)])
                        else sessionItem st),
        ownerLoginOpen := False,
        toast := Some ''Owner mode enabled''\<rparr>"

definition login :: "bool \<Rightarrow> string \<Rightarrow> owner_state \<Rightarrow> owner_state" where
  \<comment> \<open>pressing the button of the form: \<open>submit\<close>, with \<open>onLogin = ownerLogin\<close>\<close>
  "login storageWritable val st =
     (case submit val of
        SetError msg \<Rightarrow> st\<lparr>loginError := Some msg\<rparr>
      | OnLogin mobile \<Rightarrow> ownerLogin storageWritable mobile st)"

definition loggedOut :: owner_state where
  \<comment> \<open>the login form open, nobody logged in, nothing stored\<close>
  "loggedOut = \<lparr>loginError = None, ownerMobile = None, ownerLoginOpen = True,
                 toast = None, sessionItem = None\<rparr>"

section \<open>Catalog\<close>

text \<open>
  \<^verbatim>\<open>
  type Variant = { id: string; name: string; price: number };
  type MenuItem = { id: string; name: string; isVeg: boolean; variants: Variant[] };
  type MenuSection = { id: string; title: string; subtitle?: string; items: MenuItem[] };
  type FoodFilter = "ALL" | "VEG" | "NONVEG";
  \<close>
  The fields \<open>id\<close> and \<open>name\<close> carry the name of their type, since the three records
  share them. Prices in the catalog are whole rupees.
\<close>

record Variant =
  variant_id :: string
  variant_name :: string
  price :: int

record MenuItem =
  item_id :: string
  item_name :: string
  isVeg :: bool
  variants :: "Variant list"

record MenuSection =
  section_id :: string
  title :: string
  subtitle :: "string option"
  items :: "MenuItem list"

datatype FoodFilter = ALL_FOOD | VEG | NONVEG  \<comment> \<open>\<open>ALL_FOOD\<close> is \<open>"ALL"\<close>\<close>

text \<open>
  The catalog \<open>MENU\<close> is a constant of fourteen sections. The functions below take it as
  their first argument, and the properties are proved for every catalog. For the
  examples, \<open>MENU_excerpt\<close> is four of its sections, each cut down to one or two of its
  items.
\<close>

definition paneer_punjabi :: MenuItem where
  "paneer_punjabi =
     \<lparr>item_id = ''paneer-punjabi'', item_name = ''Paneer Punjabi'', isVeg = True,
      variants = [\<lparr>variant_id = ''full'', variant_name = ''Full'', price = 220\<rparr>]\<rparr>"

definition paneer_pakora :: MenuItem where
  "paneer_pakora =
     \<lparr>item_id = ''paneer-pakora'', item_name = ''Paneer Pakora'', isVeg = True,
      variants = [\<lparr>variant_id = ''reg'', variant_name = ''Regular'', price = 120\<rparr>]\<rparr>"

definition chicken_kurkure_momos :: MenuItem where
  "chicken_kurkure_momos =
     \<lparr>item_id = ''chicken-kurkure-momos'', item_name = ''Chicken Kurkure Momos'',
      isVeg = False,
      variants = [\<lparr>variant_id = ''reg'', variant_name = ''Regular'', price = 110\<rparr>]\<rparr>"

definition margherita_pizza :: MenuItem where
  \<open>margherita_pizza =
     \<lparr>item_id = ''margherita-pizza'', item_name = ''Margherita Pizza'', isVeg = True,
      variants = [\<lparr>variant_id = ''7'', variant_name = ''7"'', price = 130\<rparr>,
                  \<lparr>variant_id = ''8'', variant_name = ''8"'', price = 160\<rparr>,
                  \<lparr>variant_id = ''10'', variant_name = ''10"'', price = 260\<rparr>]\<rparr>\<close>

definition french_fries :: MenuItem where
  "french_fries =
     \<lparr>item_id = ''french-fries'', item_name = ''French Fries'', isVeg = True,
      variants = [\<lparr>variant_id = ''reg'', variant_name = ''Reg'', price = 55\<rparr>,
                  \<lparr>variant_id = ''med'', variant_name = ''Med'', price = 90\<rparr>,
                  \<lparr>variant_id = ''large'', variant_name = ''Large'', price = 120\<rparr>]\<rparr>"

definition MENU_excerpt :: "MenuSection list" where
  "MENU_excerpt =
     [\<lparr>section_id = ''veg-main-gravy'', title = ''Main Course (Veg)'', subtitle = None,
       items = [paneer_punjabi]\<rparr>,
      \<lparr>section_id = ''chinese-starters'', title = ''Chinese & Starters'', subtitle = None,
       items = [paneer_pakora, chicken_kurkure_momos]\<rparr>,
      \<lparr>section_id = ''veg-pizzas'', title = ''Veg Pizzas'', subtitle = None,
       items = [margherita_pizza]\<rparr>,
      \<lparr>section_id = ''fries'', title = ''Fries'', subtitle = None,
       items = [french_fries]\<rparr>]"

section \<open>Variant labels\<close>

text \<open>
  \<^verbatim>\<open>
  function normalizeVariantName(name: string) {
    const n = name.trim();
    const inches = n.match(/^\s*(\d+)\s*"\s*$/);
    if (inches) return `${inches[1]} inches`;
    if (/^reg$/i.test(n)) return "Regular";
    if (/^med$/i.test(n)) return "Medium";
    if (/^large$/i.test(n)) return "Large";
    return n;
  }
  \<close>
  \<open>matchInches\<close> is the match of the first regular expression against the whole text,
  giving the captured digits: white space, then one or more digits, then white space, then
  the double quote, then white space up to the end. The classes of neighbouring parts
  are disjoint, so the greedy reading is the only one.
\<close>

definition dquote :: char where
  "dquote = CHR 0x22"

definition matchInches :: "string \<Rightarrow> string option" where
  "matchInches n =
     (let s1 = dropWhile isWhiteSpace n;
          ds = takeWhile isDigit s1;
          s2 = dropWhile isWhiteSpace (dropWhile isDigit s1)
      in case s2 of
           [] \<Rightarrow> None
         | c # s3 \<Rightarrow>
             if ds \<noteq> [] \<and> c = dquote \<and> dropWhile isWhiteSpace s3 = [] then Some ds
             else None)"

definition normalizeVariantName :: "string \<Rightarrow> string" where
  "normalizeVariantName name =
     (let n = trim name
      in case matchInches n of
           Some inches \<Rightarrow> inches @ '' inches''
         | None \<Rightarrow>
             if testIgnoreCase ''reg'' n then ''Regular''
             else if testIgnoreCase ''med'' n then ''Medium''
             else if testIgnoreCase ''large'' n then ''Large''
             else n)"

section \<open>Filter pipeline\<close>

text \<open>
  \<^verbatim>\<open>
  const includeUnavailable = ownerMode && showUnavailableForOwner;
  const menuByAvailability = useMemo(() => {
    if (includeUnavailable) return MENU;
    return MENU.map((s) => ({ ...s, items: s.items.filter((it) => isAvailable(it.id)) }))
               .filter((s) => s.items.length > 0);
  }, [includeUnavailable, availability]);
  \<close>
\<close>

definition includeUnavailable :: "bool \<Rightarrow> bool \<Rightarrow> bool" where
  "includeUnavailable ownerMode showUnavailableForOwner =
     (ownerMode \<and> showUnavailableForOwner)"

definition menuByAvailability ::
  "MenuSection list \<Rightarrow> bool \<Rightarrow> AvailabilityMap \<Rightarrow> MenuSection list" where
  "menuByAvailability MENU inclUnavailable availability =
     (if inclUnavailable then MENU
      else filter (\<lambda>s. length (items s) > 0)
             (map (\<lambda>s. s\<lparr>items := filter (\<lambda>it. isAvailable availability (item_id it))
                                     (items s)\<rparr>)
                MENU))"

text \<open>
  \<^verbatim>\<open>
  const baseFilteredMenu = useMemo(() => {
    const q = query.trim().toLowerCase();
    return menuByAvailability
      .map((section) => {
        const items = section.items.filter((it) => {
          const matchesQuery = !q ? true
            : [it.name, ...it.variants.map((v) => normalizeVariantName(v.name))]
                .join(" ").toLowerCase().includes(q);
          const matchesFood =
            foodFilter === "ALL" ? true : foodFilter === "VEG" ? it.isVeg : !it.isVeg;
          return matchesQuery && matchesFood;
        });
        return { ...section, items };
      })
      .filter((s) => s.items.length > 0);
  }, [query, foodFilter, menuByAvailability]);
  \<close>
\<close>

definition matchesQuery :: "string \<Rightarrow> MenuItem \<Rightarrow> bool" where
  "matchesQuery q it =
     (if q = [] then True
      else includes_str
             (toLowerCase
                (join '' ''
                   (item_name it # map (\<lambda>v. normalizeVariantName (variant_name v)) (variants it))))
             q)"

definition matchesFood :: "FoodFilter \<Rightarrow> MenuItem \<Rightarrow> bool" where
  "matchesFood foodFilter it =
     (if foodFilter = ALL_FOOD then True else if foodFilter = VEG then isVeg it else \<not> isVeg it)"

definition baseFilteredMenu ::
  "string \<Rightarrow> FoodFilter \<Rightarrow> MenuSection list \<Rightarrow> MenuSection list" where
  "baseFilteredMenu query foodFilter menuByAvail =
     (let q = toLowerCase (trim query)
      in filter (\<lambda>s. length (items s) > 0)
           (map (\<lambda>section.
                   section\<lparr>items := filter (\<lambda>it. matchesQuery q it \<and> matchesFood foodFilter it)
                                       (items section)\<rparr>)
              menuByAvail))"

text \<open>
  \<^verbatim>\<open>
  const filteredMenu = useMemo(() => {
    if (selectedCategoryIds.length === 0) return baseFilteredMenu;
    const selected = new Set(selectedCategoryIds);
    return baseFilteredMenu.filter((s) => selected.has(s.id));
  }, [baseFilteredMenu, selectedCategoryIds]);
  const availableSectionIds = useMemo(() => new Set(baseFilteredMenu.map((s) => s.id)), ...);
  const foodTypeSectionIds = useMemo(() => {
    if (foodFilter === "ALL") return new Set(menuByAvailability.map((s) => s.id));
    if (foodFilter === "VEG")
      return new Set(menuByAvailability.filter((s) => s.items.some((i) => i.isVeg))
                                       .map((s) => s.id));
    return new Set(menuByAvailability.filter((s) => s.items.some((i) => !i.isVeg))
                                     .map((s) => s.id));
  }, [foodFilter, menuByAvailability]);
  const visibleSectionIds = useMemo(() => new Set(filteredMenu.map((s) => s.id)), ...);
  \<close>
\<close>

definition filteredMenu :: "MenuSection list \<Rightarrow> string list \<Rightarrow> MenuSection list" where
  "filteredMenu baseFiltered selectedCategoryIds =
     (if length selectedCategoryIds = 0 then baseFiltered
      else (let selected = set selectedCategoryIds
            in filter (\<lambda>s. section_id s \<in> selected) baseFiltered))"

definition availableSectionIds :: "MenuSection list \<Rightarrow> string set" where
  "availableSectionIds baseFiltered = set (map section_id baseFiltered)"

definition foodTypeSectionIds :: "FoodFilter \<Rightarrow> MenuSection list \<Rightarrow> string set" where
  "foodTypeSectionIds foodFilter menuByAvail =
     (if foodFilter = ALL_FOOD then set (map section_id menuByAvail)
      else if foodFilter = VEG
      then set (map section_id (filter (\<lambda>s. list_ex (\<lambda>i. isVeg i) (items s)) menuByAvail))
      else set (map section_id (filter (\<lambda>s. list_ex (\<lambda>i. \<not> isVeg i) (items s)) menuByAvail)))"

definition visibleSectionIds :: "MenuSection list \<Rightarrow> string set" where
  "visibleSectionIds filtered = set (map section_id filtered)"

text \<open>
  The repair of the selection is an effect that runs after a render in which the
  eligible sets or the number of selected categories changed:
  \<^verbatim>\<open>
  useEffect(() => {
    if (selectedCategoryIds.length === 0) return;
    setSelectedCategoryIds((prev) =>
      prev.filter((id) => availableSectionIds.has(id) && foodTypeSectionIds.has(id)));
  }, [availableSectionIds, foodTypeSectionIds, selectedCategoryIds.length]);
  \<close>
  \<open>selectionRepair\<close> is one run of it, from the selection of that render to the selection
  it leaves.
\<close>

definition selectionRepair :: "string set \<Rightarrow> string set \<Rightarrow> string list \<Rightarrow> string list" where
  "selectionRepair available foodType selectedCategoryIds =
     (if length selectedCategoryIds = 0 then selectedCategoryIds
      else filter (\<lambda>id. id \<in> available \<and> id \<in> foodType) selectedCategoryIds)"

definition allItems :: "MenuSection list \<Rightarrow> MenuItem list" where
  \<comment> \<open>the items that a list of sections shows, in order\<close>
  "allItems sections = concat (map items sections)"

section \<open>Properties\<close>

lemma prefix_iff_take: "prefix xs ys \<longleftrightarrow> take (length xs) ys = xs"
proof
  assume "prefix xs ys"
  then obtain zs where "ys = xs @ zs" by (auto simp: prefix_def)
  then show "take (length xs) ys = xs" by simp
next
  assume "take (length xs) ys = xs"
  then have "ys = xs @ drop (length xs) ys" by (metis append_take_drop_id)
  then show "prefix xs ys" by (metis prefixI)
qed

text \<open>
  C8. \<open>normalizeIndianMobile\<close> returns \<open>9876543210\<close> for the inputs \<open>9876543210\<close>,
  \<open>+919876543210\<close>, \<open>919876543210\<close> and \<open>09876543210\<close>, and rejects \<open>12345\<close>. In general,
  with \<open>ds\<close> the digits of the input in order, it returns a number exactly when \<open>ds\<close> is a
  10-digit form, a 12-digit form starting with \<open>91\<close> or an 11-digit form starting with
  \<open>0\<close>; the number returned is then the last ten digits of \<open>ds\<close>, and every other input is
  rejected.
\<close>

theorem normalizeIndianMobile_spec:
  "normalizeIndianMobile ''9876543210'' = Some ''9876543210''
   \<and> normalizeIndianMobile ''+919876543210'' = Some ''9876543210''
   \<and> normalizeIndianMobile ''919876543210'' = Some ''9876543210''
   \<and> normalizeIndianMobile ''09876543210'' = Some ''9876543210''
   \<and> normalizeIndianMobile ''12345'' = None
   \<and> (let ds = filter isDigit input;
           accepted = (length ds = 10
                       \<or> (length ds = 12 \<and> take 2 ds = ''91'')
                       \<or> (length ds = 11 \<and> take 1 ds = ''0''))
       in (accepted \<longrightarrow>
             normalizeIndianMobile input = Some (drop (length ds - 10) ds)
             \<and> length (drop (length ds - 10) ds) = 10
             \<and> list_all isDigit (drop (length ds - 10) ds))
        \<and> (\<not> accepted \<longrightarrow> normalizeIndianMobile input = None))"
proof -
  have ex: "normalizeIndianMobile ''9876543210'' = Some ''9876543210''"
    "normalizeIndianMobile ''+919876543210'' = Some ''9876543210''"
    "normalizeIndianMobile ''919876543210'' = Some ''9876543210''"
    "normalizeIndianMobile ''09876543210'' = Some ''9876543210''"
    "normalizeIndianMobile ''12345'' = None"
    by (simp_all add: normalizeIndianMobile_def isDigit_def)
  have p2: "prefix ''91'' ds \<longleftrightarrow> take 2 ds = ''91''" for ds :: string
    using prefix_iff_take [of "''91''" ds] by (simp add: numeral_2_eq_2)
  have p1: "prefix ''0'' ds \<longleftrightarrow> take 1 ds = ''0''" for ds :: string
    using prefix_iff_take [of "''0''" ds] by simp
  have dg: "list_all isDigit (drop k (filter isDigit input))" for k
    by (auto simp: list_all_iff dest: in_set_dropD)
  have gen: "(let ds = filter isDigit input;
           accepted = (length ds = 10
                       \<or> (length ds = 12 \<and> take 2 ds = ''91'')
                       \<or> (length ds = 11 \<and> take 1 ds = ''0''))
       in (accepted \<longrightarrow>
             normalizeIndianMobile input = Some (drop (length ds - 10) ds)
             \<and> length (drop (length ds - 10) ds) = 10
             \<and> list_all isDigit (drop (length ds - 10) ds))
        \<and> (\<not> accepted \<longrightarrow> normalizeIndianMobile input = None))"
    using dg [of 0] by (auto simp: normalizeIndianMobile_def Let_def p1 p2 dg)
  from ex gen show ?thesis by (intro conjI)
qed

theorem normalizeIndianMobile_spec_witness:
  "(let ds = filter isDigit ''+91 98765-43210'';
        accepted = (length ds = 10
                    \<or> (length ds = 12 \<and> take 2 ds = ''91'')
                    \<or> (length ds = 11 \<and> take 1 ds = ''0''))
    in accepted \<and> normalizeIndianMobile ''+91 98765-43210'' = Some ''9876543210'')
   \<and> (let ds = filter isDigit ''12345'';
        accepted = (length ds = 10
                    \<or> (length ds = 12 \<and> take 2 ds = ''91'')
                    \<or> (length ds = 11 \<and> take 1 ds = ''0''))
    in \<not> accepted \<and> normalizeIndianMobile ''12345'' = None)"
  using normalizeIndianMobile_spec [of "''+91 98765-43210''"]
        normalizeIndianMobile_spec [of "''12345''"]
  by (simp add: isDigit_def)

lemma normalizeIndianMobile_Some:
  assumes "normalizeIndianMobile input = Some n"
  shows "length n = 10 \<and> list_all isDigit n"
proof -
  have dg: "list_all isDigit (drop k (filter isDigit input))" for k
    by (auto simp: list_all_iff dest: in_set_dropD)
  from assms dg [of 0] dg [of 1] dg [of 2] show ?thesis
    by (auto simp: normalizeIndianMobile_def Let_def split: if_splits)
qed

text \<open>
  C9. Login fails with \<open>InvalidFormat\<close> exactly when normalization yields no number (and a
  number it yields always has exactly ten digits); it fails with \<open>NotAuthorized\<close> exactly
  when normalization yields a number that is not in the allow-list; a failure leaves the
  session as it was. Otherwise it succeeds: \<open>onLogin\<close> is called with the normalized
  number, which is in the allow-list, and the session holds that number afterwards.
  \<open>9110162059\<close> logs in and \<open>9999999999\<close> fails with \<open>NotAuthorized\<close>.
\<close>

theorem login_spec:
  "(submit val = SetError InvalidFormat \<longleftrightarrow> normalizeIndianMobile val = None)
   \<and> (normalizeIndianMobile val = Some n \<longrightarrow> length n = 10 \<and> list_all isDigit n)
   \<and> (submit val = SetError NotAuthorized \<longleftrightarrow>
        (case normalizeIndianMobile val of None \<Rightarrow> False
         | Some m \<Rightarrow> m \<notin> set OWNER_MOBILES))
   \<and> (submit val = SetError InvalidFormat \<or> submit val = SetError NotAuthorized \<longrightarrow>
        ownerMobile (login w val st) = ownerMobile st
        \<and> sessionItem (login w val st) = sessionItem st)
   \<and> (submit val \<noteq> SetError InvalidFormat \<and> submit val \<noteq> SetError NotAuthorized \<longrightarrow>
        (case normalizeIndianMobile val of None \<Rightarrow> False
         | Some m \<Rightarrow> m \<in> set OWNER_MOBILES \<and> submit val = OnLogin m
                    \<and> ownerMobile (login w val st) = Some m
                    \<and> \<not> ownerLoginOpen (login w val st)))
   \<and> submit ''9110162059'' = OnLogin ''9110162059''
   \<and> ownerMobile (login w ''9110162059'' st) = Some ''9110162059''
   \<and> submit ''9999999999'' = SetError NotAuthorized
   \<and> ownerMobile (login w ''9999999999'' st) = ownerMobile st"
proof -
  have neq: "InvalidFormat \<noteq> NotAuthorized"
    by (simp add: InvalidFormat_def NotAuthorized_def)
  have ne: "m \<noteq> []" if "normalizeIndianMobile val = Some m" for m
    using normalizeIndianMobile_Some [OF that] by auto
  have a: "submit val = SetError InvalidFormat \<longleftrightarrow> normalizeIndianMobile val = None"
    using neq ne by (auto simp: submit_def split: option.splits)
  have b: "normalizeIndianMobile val = Some n \<longrightarrow> length n = 10 \<and> list_all isDigit n"
    using normalizeIndianMobile_Some by blast
  have c: "submit val = SetError NotAuthorized \<longleftrightarrow>
        (case normalizeIndianMobile val of None \<Rightarrow> False
         | Some m \<Rightarrow> m \<notin> set OWNER_MOBILES)"
    using neq ne by (auto simp: submit_def split: option.splits)
  have d: "submit val = SetError InvalidFormat \<or> submit val = SetError NotAuthorized \<longrightarrow>
        ownerMobile (login w val st) = ownerMobile st
        \<and> sessionItem (login w val st) = sessionItem st"
    by (auto simp: login_def)
  have e: "submit val \<noteq> SetError InvalidFormat \<and> submit val \<noteq> SetError NotAuthorized \<longrightarrow>
        (case normalizeIndianMobile val of None \<Rightarrow> False
         | Some m \<Rightarrow> m \<in> set OWNER_MOBILES \<and> submit val = OnLogin m
                    \<and> ownerMobile (login w val st) = Some m
                    \<and> \<not> ownerLoginOpen (login w val st))"
    using ne by (auto simp: submit_def login_def ownerLogin_def split: option.splits)
  have n1: "normalizeIndianMobile ''9110162059'' = Some ''9110162059''"
    and n2: "normalizeIndianMobile ''9999999999'' = Some ''9999999999''"
    by (simp_all add: normalizeIndianMobile_def isDigit_def)
  have f: "submit ''9110162059'' = OnLogin ''9110162059''"
    by (simp add: submit_def n1 OWNER_MOBILES_def)
  have g: "submit ''9999999999'' = SetError NotAuthorized"
    by (simp add: submit_def n2 OWNER_MOBILES_def)
  have h: "ownerMobile (login w ''9110162059'' st) = Some ''9110162059''"
    by (simp add: login_def f ownerLogin_def)
  have i: "ownerMobile (login w ''9999999999'' st) = ownerMobile st"
    by (simp add: login_def g)
  from a b c d e f h g i show ?thesis by (intro conjI)
qed

theorem login_spec_witness:
  "normalizeIndianMobile ''12345'' = None
   \<and> submit ''12345'' = SetError InvalidFormat
   \<and> ownerMobile (login True ''12345'' loggedOut) = None
   \<and> normalizeIndianMobile ''99999-99999'' = Some ''9999999999''
   \<and> ''9999999999'' \<notin> set OWNER_MOBILES
   \<and> submit ''99999-99999'' = SetError NotAuthorized
   \<and> ownerMobile (login True ''99999-99999'' loggedOut) = None
   \<and> normalizeIndianMobile ''+91 91101 62059'' = Some ''9110162059''
   \<and> length ''9110162059'' = 10
   \<and> ''9110162059'' \<in> set OWNER_MOBILES
   \<and> submit ''+91 91101 62059'' = OnLogin ''9110162059''
   \<and> ownerMobile (login True ''+91 91101 62059'' loggedOut) = Some ''9110162059''"
proof -
  have n1: "normalizeIndianMobile ''12345'' = None"
    and n2: "normalizeIndianMobile ''99999-99999'' = Some ''9999999999''"
    and n3: "normalizeIndianMobile ''+91 91101 62059'' = Some ''9110162059''"
    by (simp_all add: normalizeIndianMobile_def isDigit_def)
  have m2: "''9999999999'' \<notin> set OWNER_MOBILES" and m3: "''9110162059'' \<in> set OWNER_MOBILES"
    by (simp_all add: OWNER_MOBILES_def)
  have om: "ownerMobile loggedOut = None"
    by (simp add: loggedOut_def)
  have neq: "InvalidFormat \<noteq> NotAuthorized"
    by (simp add: InvalidFormat_def NotAuthorized_def)
  show ?thesis
    using login_spec [where val = "''12345''" and w = True and st = loggedOut]
          login_spec [where val = "''99999-99999''" and w = True and st = loggedOut]
          login_spec [where val = "''+91 91101 62059''" and n = "''9110162059''"
                        and w = True and st = loggedOut]
    by (simp add: n1 n2 n3 m2 m3 om neq)
qed

text \<open>
  C2. For every item identifier and every overlay, \<open>isAvailable\<close> is true if and only if
  the overlay does not map the identifier to the literal \<open>false\<close>; an identifier absent
  from the overlay is available, and so is one mapped to any value other than \<open>false\<close>.
\<close>

theorem isAvailable_iff:
  "(isAvailable availability itemId \<longleftrightarrow> availability itemId \<noteq> Some (JBool False))
   \<and> (availability itemId = None \<longrightarrow> isAvailable availability itemId)
   \<and> (availability itemId = Some v \<and> v \<noteq> JBool False \<longrightarrow> isAvailable availability itemId)"
proof -
  have "strictEqualsFalse x \<longleftrightarrow> x = Some (JBool False)" for x
    by (cases x rule: strictEqualsFalse.cases) auto
  then show ?thesis
    by (auto simp: isAvailable_def)
qed

theorem isAvailable_iff_witness:
  "[''cold-coffee'' \<mapsto> JBool True] ''paneer-punjabi'' = None
   \<and> isAvailable [''cold-coffee'' \<mapsto> JBool True] ''paneer-punjabi''
   \<and> [''cold-coffee'' \<mapsto> JBool True] ''cold-coffee'' = Some (JBool True)
   \<and> JBool True \<noteq> JBool False
   \<and> isAvailable [''cold-coffee'' \<mapsto> JBool True] ''cold-coffee''
   \<and> \<not> isAvailable [''cold-coffee'' \<mapsto> JBool False] ''cold-coffee''"
  using isAvailable_iff [of "[''cold-coffee'' \<mapsto> JBool True]" "''paneer-punjabi''"]
        isAvailable_iff [of "[''cold-coffee'' \<mapsto> JBool True]" "''cold-coffee''" "JBool True"]
        isAvailable_iff [of "[''cold-coffee'' \<mapsto> JBool False]" "''cold-coffee''"]
  by simp




text \<open>
  C10. \<open>setItemAvailable\<close> on one item leaves the overlay entry of every other item
  identifier as it was, and with it the availability of every other item.
\<close>

theorem setItemAvailable_frame:
  assumes "j \<noteq> itemId"
  shows "setItemAvailable itemId b availability j = availability j
         \<and> isAvailable (setItemAvailable itemId b availability) j = isAvailable availability j"
  using assms by (auto simp: setItemAvailable_def isAvailable_def)

theorem setItemAvailable_frame_witness:
  "''cold-coffee'' \<noteq> ''paneer-punjabi''
   \<and> setItemAvailable ''paneer-punjabi'' False [''cold-coffee'' \<mapsto> JBool False] ''cold-coffee''
       = Some (JBool False)
   \<and> setItemAvailable ''paneer-punjabi'' True [''cold-coffee'' \<mapsto> JBool False] ''cold-coffee''
       = Some (JBool False)"
  using setItemAvailable_frame [of "''cold-coffee''" "''paneer-punjabi''" False
          "[''cold-coffee'' \<mapsto> JBool False]"]
        setItemAvailable_frame [of "''cold-coffee''" "''paneer-punjabi''" True
          "[''cold-coffee'' \<mapsto> JBool False]"]
  by simp


text \<open>
  C3, as the claim states it, fails. The stored text below is a JSON object with one entry
  that is not \<open>false\<close>, so it is not of the shape that the specification names; the overlay
  still starts as that object, not empty, and \<open>paneer-punjabi\<close> starts unavailable.
\<close>

theorem initAvailability_counterexample:
  \<open>\<not> specOverlayShape
        (Parsed (JObj [(''paneer-punjabi'', JBool False), (''cold-coffee'', JBool True)]))
   \<and> initAvailability
        (GetItem ''{"paneer-punjabi":false,"cold-coffee":true}''
           (Parsed (JObj [(''paneer-punjabi'', JBool False), (''cold-coffee'', JBool True)])))
       \<noteq> Map.empty
   \<and> \<not> isAvailable
         (initAvailability
            (GetItem ''{"paneer-punjabi":false,"cold-coffee":true}''
               (Parsed (JObj [(''paneer-punjabi'', JBool False), (''cold-coffee'', JBool True)]))))
         ''paneer-punjabi''\<close>
proof -
  let ?kvs = "[(''paneer-punjabi'', JBool False), (''cold-coffee'', JBool True)]"
  let ?raw = \<open>''{"paneer-punjabi":false,"cold-coffee":true}''\<close>
  have shape: "\<not> specOverlayShape (Parsed (JObj ?kvs))"
    by (simp add: specOverlayShape_def)
  have init: "initAvailability (GetItem ?raw (Parsed (JObj ?kvs))) = map_of ?kvs"
    by (simp add: initAvailability_def initAvailability_try_def)
  have entry: "map_of ?kvs ''paneer-punjabi'' = Some (JBool False)"
    by simp
  have nonempty: "map_of ?kvs \<noteq> Map.empty"
  proof
    assume "map_of ?kvs = Map.empty"
    then have "map_of ?kvs ''paneer-punjabi'' = None"
      by (simp only: )
    with entry show False
      by simp
  qed
  have unavailable: "\<not> isAvailable (map_of ?kvs) ''paneer-punjabi''"
    by (simp add: isAvailable_def)
  from shape nonempty unavailable show ?thesis
    by (simp only: init simp_thms)
qed

text \<open>
  A stored JSON array also has \<open>typeof\<close> \<open>object\<close> and is taken as the overlay, its
  elements under their indices: the stored text \<open>[false]\<close> makes an item named \<open>0\<close>
  unavailable. No identifier of the catalog is a numeral.
\<close>

lemma initAvailability_array:
  "initAvailability (GetItem ''[false]'' (Parsed (JArr [JBool False]))) = [''0'' \<mapsto> JBool False]
   \<and> \<not> isAvailable (initAvailability (GetItem ''[false]'' (Parsed (JArr [JBool False])))) ''0''"
  by (simp add: initAvailability_def initAvailability_try_def natToString.simps isAvailable_def)

text \<open>
  C3, amended. At startup the overlay starts empty if the stored value is missing, is the
  empty text, cannot be parsed as JSON, or parses to \<open>null\<close>, a boolean, a number or a
  string; every exception of the read is caught and gives the empty overlay, so startup
  never fails on a bad stored value. If the stored value parses to a JSON object, the
  overlay is that object, with every stored entry as it is, whatever its value; when
  every entry is \<open>false\<close>, the items that start unavailable are exactly its keys.
\<close>

theorem initAvailability_spec:
  "initAvailability GetItemNull = Map.empty
   \<and> initAvailability (GetItem [] p) = Map.empty
   \<and> (initAvailability_try rd = Inl e \<longrightarrow> initAvailability rd = Map.empty)
   \<and> initAvailability_try GetItemThrows = Inl StorageError
   \<and> (raw \<noteq> [] \<longrightarrow> initAvailability_try (GetItem raw ParseThrows) = Inl SyntaxError)
   \<and> initAvailability (GetItem raw (Parsed JNull)) = Map.empty
   \<and> initAvailability (GetItem raw (Parsed (JBool b))) = Map.empty
   \<and> initAvailability (GetItem raw (Parsed (JNum x))) = Map.empty
   \<and> initAvailability (GetItem raw (Parsed (JStr t))) = Map.empty
   \<and> (raw \<noteq> [] \<longrightarrow> initAvailability (GetItem raw (Parsed (JObj kvs))) = map_of kvs)
   \<and> (raw \<noteq> [] \<and> specOverlayShape (Parsed (JObj kvs)) \<longrightarrow>
        (isAvailable (initAvailability (GetItem raw (Parsed (JObj kvs)))) itemId
           \<longleftrightarrow> itemId \<notin> fst ` set kvs))"
proof -
  have obj: "initAvailability (GetItem raw (Parsed (JObj kvs))) = map_of kvs" if "raw \<noteq> []"
    using that by (simp add: initAvailability_def initAvailability_try_def)
  have avail: "isAvailable (map_of kvs) itemId \<longleftrightarrow> itemId \<notin> fst ` set kvs"
    if "specOverlayShape (Parsed (JObj kvs))"
  proof (cases "map_of kvs itemId")
    case None
    then have "itemId \<notin> fst ` set kvs"
      by (simp add: map_of_eq_None_iff)
    with None show ?thesis
      by (simp add: isAvailable_def)
  next
    case (Some v)
    then have mem: "(itemId, v) \<in> set kvs"
      by (rule map_of_SomeD)
    with that have "v = JBool False"
      by (auto simp: specOverlayShape_def list_all_iff)
    with Some have "\<not> isAvailable (map_of kvs) itemId"
      by (simp add: isAvailable_def)
    moreover from mem have "itemId \<in> fst ` set kvs"
      by force
    ultimately show ?thesis
      by simp
  qed
  have last: "raw \<noteq> [] \<and> specOverlayShape (Parsed (JObj kvs)) \<longrightarrow>
        (isAvailable (initAvailability (GetItem raw (Parsed (JObj kvs)))) itemId
           \<longleftrightarrow> itemId \<notin> fst ` set kvs)"
    using obj avail by simp
  have caught: "initAvailability_try rd = Inl e \<longrightarrow> initAvailability rd = Map.empty"
    by (simp add: initAvailability_def)
  have rest: "initAvailability GetItemNull = Map.empty"
    "initAvailability (GetItem [] p) = Map.empty"
    "initAvailability_try GetItemThrows = Inl StorageError"
    "raw \<noteq> [] \<longrightarrow> initAvailability_try (GetItem raw ParseThrows) = Inl SyntaxError"
    "initAvailability (GetItem raw (Parsed JNull)) = Map.empty"
    "initAvailability (GetItem raw (Parsed (JBool b))) = Map.empty"
    "initAvailability (GetItem raw (Parsed (JNum x))) = Map.empty"
    "initAvailability (GetItem raw (Parsed (JStr t))) = Map.empty"
    by (simp_all add: initAvailability_def initAvailability_try_def)
  from rest caught obj last show ?thesis
    by simp
qed

theorem initAvailability_spec_witness:
  \<open>''{"paneer-punjabi":false}'' \<noteq> []
   \<and> specOverlayShape (Parsed (JObj [(''paneer-punjabi'', JBool False)]))
   \<and> initAvailability
        (GetItem ''{"paneer-punjabi":false}'' (Parsed (JObj [(''paneer-punjabi'', JBool False)])))
       = [''paneer-punjabi'' \<mapsto> JBool False]
   \<and> \<not> isAvailable
         (initAvailability
            (GetItem ''{"paneer-punjabi":false}''
               (Parsed (JObj [(''paneer-punjabi'', JBool False)]))))
         ''paneer-punjabi''
   \<and> isAvailable
         (initAvailability
            (GetItem ''{"paneer-punjabi":false}''
               (Parsed (JObj [(''paneer-punjabi'', JBool False)]))))
         ''cold-coffee''
   \<and> initAvailability_try (GetItem ''{"paneer'' ParseThrows) = Inl SyntaxError
   \<and> initAvailability (GetItem ''{"paneer'' ParseThrows) = Map.empty
   \<and> initAvailability_try GetItemThrows = Inl StorageError
   \<and> initAvailability GetItemThrows = Map.empty\<close>
  using initAvailability_spec [where raw = \<open>''{"paneer-punjabi":false}''\<close>
          and kvs = "[(''paneer-punjabi'', JBool False)]" and itemId = "''paneer-punjabi''"]
        initAvailability_spec [where raw = \<open>''{"paneer-punjabi":false}''\<close>
          and kvs = "[(''paneer-punjabi'', JBool False)]" and itemId = "''cold-coffee''"]
        initAvailability_spec [where raw = \<open>''{"paneer''\<close>
          and rd = \<open>GetItem ''{"paneer'' ParseThrows\<close> and e = SyntaxError]
        initAvailability_spec [where rd = GetItemThrows and e = StorageError]
  by (simp add: specOverlayShape_def)


lemma allItems_filter_nonempty:
  "allItems (filter (\<lambda>s. items s \<noteq> []) sections) = allItems sections"
  by (induction sections) (simp_all add: allItems_def)

lemma allItems_map_filter:
  "allItems (map (\<lambda>s. s\<lparr>items := filter P (items s)\<rparr>) sections) = filter P (allItems sections)"
  by (induction sections) (simp_all add: allItems_def)

lemma allItems_menuByAvailability:
  "allItems (menuByAvailability MENU incl availability)
     = filter (\<lambda>it. isAvailable availability (item_id it) \<or> incl) (allItems MENU)"
  by (simp add: menuByAvailability_def allItems_filter_nonempty allItems_map_filter)

lemma allItems_baseFilteredMenu:
  "allItems (baseFilteredMenu query foodFilter sections)
     = filter (\<lambda>it. matchesQuery (toLowerCase (trim query)) it \<and> matchesFood foodFilter it)
         (allItems sections)"
  by (simp add: baseFilteredMenu_def Let_def allItems_filter_nonempty allItems_map_filter)

text \<open>
  C1. For every catalog, item and filter state, the base-filtered result contains the
  item if and only if the item is in the catalog and passes, each on its own, the
  availability check (available, or the viewer is an owner who includes unavailable
  items), the search check (the trimmed, lower-cased query is empty or occurs in the
  lower-cased name and normalized variant labels) and the diet check. So the result of
  the stages is the same in any order of the three checks.
\<close>

theorem baseFilteredMenu_conjunctive:
  "it \<in> set (allItems (baseFilteredMenu query foodFilter
                (menuByAvailability MENU (includeUnavailable ownerMode showUnavailable)
                   availability)))
   \<longleftrightarrow> it \<in> set (allItems MENU)
       \<and> (isAvailable availability (item_id it) \<or> (ownerMode \<and> showUnavailable))
       \<and> (toLowerCase (trim query) = []
            \<or> includes_str
                 (toLowerCase
                    (join '' ''
                       (item_name it
                        # map (\<lambda>v. normalizeVariantName (variant_name v)) (variants it))))
                 (toLowerCase (trim query)))
       \<and> (foodFilter = ALL_FOOD \<or> (foodFilter = VEG \<and> isVeg it)
            \<or> (foodFilter = NONVEG \<and> \<not> isVeg it))"
proof -
  have food: "matchesFood foodFilter it \<longleftrightarrow>
      (foodFilter = ALL_FOOD \<or> (foodFilter = VEG \<and> isVeg it) \<or> (foodFilter = NONVEG \<and> \<not> isVeg it))"
    by (cases foodFilter) (simp_all add: matchesFood_def)
  show ?thesis
    unfolding allItems_baseFilteredMenu allItems_menuByAvailability
    by (auto simp: food matchesQuery_def includeUnavailable_def)
qed

text \<open>
  C6. For every selection of categories the visible section list is a sub-list of the
  base-filtered section list (so never a strict superset of it), and with no category
  selected it is the base-filtered list itself.
\<close>

theorem filteredMenu_narrows:
  "subseq (filteredMenu baseFiltered selectedCategoryIds) baseFiltered
   \<and> \<not> set baseFiltered \<subset> set (filteredMenu baseFiltered selectedCategoryIds)
   \<and> filteredMenu baseFiltered [] = baseFiltered"
  by (auto simp: filteredMenu_def)


text \<open>
  C5. After a run of the selection repair, every category identifier that remains
  selected was selected before, names a section of the base-filtered menu (which has at
  least one matching item), is eligible under the current diet filter (a section of the
  menu by availability that, under a diet filter, has an item of that diet), and is among
  the visible sections: none is left selected while hidden.
\<close>

theorem selectionRepair_sound:
  assumes "menuByAvail =
             menuByAvailability MENU (includeUnavailable ownerMode showUnavailable) availability"
    and "baseFiltered = baseFilteredMenu query foodFilter menuByAvail"
    and "repaired =
           selectionRepair (availableSectionIds baseFiltered)
             (foodTypeSectionIds foodFilter menuByAvail) selectedCategoryIds"
    and "c \<in> set repaired"
  shows "c \<in> set selectedCategoryIds
         \<and> (\<exists>s \<in> set baseFiltered. section_id s = c \<and> items s \<noteq> [])
         \<and> c \<in> foodTypeSectionIds foodFilter menuByAvail
         \<and> (\<exists>s \<in> set menuByAvail. section_id s = c
               \<and> (foodFilter = VEG \<longrightarrow> (\<exists>i \<in> set (items s). isVeg i))
               \<and> (foodFilter = NONVEG \<longrightarrow> (\<exists>i \<in> set (items s). \<not> isVeg i)))
         \<and> c \<in> visibleSectionIds (filteredMenu baseFiltered repaired)"
proof -
  from assms(3,4) have sel: "c \<in> set selectedCategoryIds"
    and av: "c \<in> availableSectionIds baseFiltered"
    and ft: "c \<in> foodTypeSectionIds foodFilter menuByAvail"
    by (auto simp: selectionRepair_def split: if_splits)
  from av obtain s where s: "s \<in> set baseFiltered" "section_id s = c"
    by (auto simp: availableSectionIds_def)
  from s(1) have ne: "items s \<noteq> []"
    unfolding assms(2) baseFilteredMenu_def Let_def by simp
  from ft have elig: "\<exists>s \<in> set menuByAvail. section_id s = c
               \<and> (foodFilter = VEG \<longrightarrow> (\<exists>i \<in> set (items s). isVeg i))
               \<and> (foodFilter = NONVEG \<longrightarrow> (\<exists>i \<in> set (items s). \<not> isVeg i))"
    by (cases foodFilter) (auto simp: foodTypeSectionIds_def list_ex_iff)
  from assms(4) have "repaired \<noteq> []"
    by auto
  with s assms(4) have vis: "c \<in> visibleSectionIds (filteredMenu baseFiltered repaired)"
    by (auto simp: visibleSectionIds_def filteredMenu_def Let_def)
  from sel s ne ft elig vis show ?thesis
    by blast
qed


lemmas excerpt_defs =
  MENU_excerpt_def paneer_punjabi_def paneer_pakora_def chicken_kurkure_momos_def
  margherita_pizza_def french_fries_def

lemmas pipeline_defs =
  menuByAvailability_def includeUnavailable_def baseFilteredMenu_def matchesQuery_def
  matchesFood_def isAvailable_def filteredMenu_def availableSectionIds_def
  foodTypeSectionIds_def visibleSectionIds_def selectionRepair_def allItems_def

lemmas string_defs =
  trim_def toLowerCase_def lowerChar_def upperLetters_def lowerLetters_def isWhiteSpace_def
  isDigit_def upperAscii_def testIgnoreCase_def

theorem selectionRepair_sound_witness:
  "selectionRepair
     (availableSectionIds
        (baseFilteredMenu [] VEG
           (menuByAvailability MENU_excerpt (includeUnavailable False True)
              [''paneer-pakora'' \<mapsto> JBool False])))
     (foodTypeSectionIds VEG
        (menuByAvailability MENU_excerpt (includeUnavailable False True)
           [''paneer-pakora'' \<mapsto> JBool False]))
     [''chinese-starters'', ''fries'']
     = [''fries'']
   \<and> ''fries'' \<in> visibleSectionIds
        (filteredMenu
           (baseFilteredMenu [] VEG
              (menuByAvailability MENU_excerpt (includeUnavailable False True)
                 [''paneer-pakora'' \<mapsto> JBool False]))
           [''fries''])"
proof -
  let ?mba = "menuByAvailability MENU_excerpt (includeUnavailable False True)
                [''paneer-pakora'' \<mapsto> JBool False]"
  let ?base = "baseFilteredMenu [] VEG ?mba"
  have rep: "selectionRepair (availableSectionIds ?base) (foodTypeSectionIds VEG ?mba)
               [''chinese-starters'', ''fries''] = [''fries'']"
    by (simp add: pipeline_defs excerpt_defs string_defs)
  have mem: "''fries'' \<in> set (selectionRepair (availableSectionIds ?base)
               (foodTypeSectionIds VEG ?mba) [''chinese-starters'', ''fries''])"
    by (simp only: rep) simp
  from selectionRepair_sound [OF refl refl refl mem] rep show ?thesis
    by (simp only: simp_thms)
qed


theorem baseFilteredMenu_conjunctive_witness:
  "paneer_pakora \<in> set (allItems (baseFilteredMenu ''  Paneer '' VEG
       (menuByAvailability MENU_excerpt (includeUnavailable False True) Map.empty)))
   \<and> paneer_pakora \<notin> set (allItems (baseFilteredMenu ''  Paneer '' VEG
       (menuByAvailability MENU_excerpt (includeUnavailable False True)
          [''paneer-pakora'' \<mapsto> JBool False])))
   \<and> paneer_pakora \<in> set (allItems (baseFilteredMenu ''  Paneer '' VEG
       (menuByAvailability MENU_excerpt (includeUnavailable True True)
          [''paneer-pakora'' \<mapsto> JBool False])))
   \<and> chicken_kurkure_momos \<notin> set (allItems (baseFilteredMenu ''  Paneer '' VEG
       (menuByAvailability MENU_excerpt (includeUnavailable False True) Map.empty)))
   \<and> chicken_kurkure_momos \<in> set (allItems (baseFilteredMenu ''kurkure'' NONVEG
       (menuByAvailability MENU_excerpt (includeUnavailable False True) Map.empty)))
   \<and> french_fries \<in> set (allItems (baseFilteredMenu ''MEDIUM'' ALL_FOOD
       (menuByAvailability MENU_excerpt (includeUnavailable False True) Map.empty)))"
proof -
  have q: "toLowerCase (trim ''  Paneer '') = ''paneer''"
    "toLowerCase (trim ''kurkure'') = ''kurkure''"
    "toLowerCase (trim ''MEDIUM'') = ''medium''"
    by (simp_all add: string_defs)
  have labels: "normalizeVariantName ''Regular'' = ''Regular''"
    "normalizeVariantName ''Reg'' = ''Regular''"
    "normalizeVariantName ''Med'' = ''Medium''"
    "normalizeVariantName ''Large'' = ''Large''"
    by (simp_all add: normalizeVariantName_def matchInches_def dquote_def string_defs)
  have lowered: "toLowerCase ''Paneer Pakora Regular'' = ''paneer pakora regular''"
    "toLowerCase ''Chicken Kurkure Momos Regular'' = ''chicken kurkure momos regular''"
    "toLowerCase ''French Fries Regular Medium Large'' = ''french fries regular medium large''"
    by (simp_all add: string_defs)
  have mem: "paneer_pakora \<in> set (allItems MENU_excerpt)"
    "chicken_kurkure_momos \<in> set (allItems MENU_excerpt)"
    "french_fries \<in> set (allItems MENU_excerpt)"
    by (simp_all add: allItems_def MENU_excerpt_def)
  have fields: "item_id paneer_pakora = ''paneer-pakora''" "isVeg paneer_pakora"
    "item_name paneer_pakora = ''Paneer Pakora''"
    "map variant_name (variants paneer_pakora) = [''Regular'']"
    "item_id chicken_kurkure_momos = ''chicken-kurkure-momos''"
    "\<not> isVeg chicken_kurkure_momos"
    "item_name chicken_kurkure_momos = ''Chicken Kurkure Momos''"
    "map variant_name (variants chicken_kurkure_momos) = [''Regular'']"
    "item_id french_fries = ''french-fries''" "isVeg french_fries"
    "item_name french_fries = ''French Fries''"
    "map variant_name (variants french_fries) = [''Reg'', ''Med'', ''Large'']"
    by (simp_all add: excerpt_defs)
  have labs: "map (\<lambda>v. normalizeVariantName (variant_name v)) vs
                = map normalizeVariantName (map variant_name vs)" for vs
    by simp
  show ?thesis
    using baseFilteredMenu_conjunctive [of paneer_pakora "''  Paneer ''" VEG MENU_excerpt
            False True Map.empty]
          baseFilteredMenu_conjunctive [of paneer_pakora "''  Paneer ''" VEG MENU_excerpt
            False True "[''paneer-pakora'' \<mapsto> JBool False]"]
          baseFilteredMenu_conjunctive [of paneer_pakora "''  Paneer ''" VEG MENU_excerpt
            True True "[''paneer-pakora'' \<mapsto> JBool False]"]
          baseFilteredMenu_conjunctive [of chicken_kurkure_momos "''  Paneer ''" VEG
            MENU_excerpt False True Map.empty]
          baseFilteredMenu_conjunctive [of chicken_kurkure_momos "''kurkure''" NONVEG
            MENU_excerpt False True Map.empty]
          baseFilteredMenu_conjunctive [of french_fries "''MEDIUM''" ALL_FOOD
            MENU_excerpt False True Map.empty]
    by (simp add: q mem fields labs labels lowered isAvailable_def del: map_map)
qed

text \<open>
  An instance of C6 on the excerpt: with the diet filter \<open>VEG\<close> and the category
  \<open>fries\<close> selected, only that section is visible.
\<close>

lemma filteredMenu_excerpt:
  "map section_id
     (filteredMenu
        (baseFilteredMenu [] VEG
           (menuByAvailability MENU_excerpt (includeUnavailable False True) Map.empty))
        [''fries''])
   = [''fries'']
   \<and> map section_id
     (filteredMenu
        (baseFilteredMenu [] VEG
           (menuByAvailability MENU_excerpt (includeUnavailable False True) Map.empty))
        [])
   = [''veg-main-gravy'', ''chinese-starters'', ''veg-pizzas'', ''fries'']"
  by (simp add: pipeline_defs excerpt_defs string_defs)


subsection \<open>Variant labels\<close>

lemma digit_not_space: "isDigit c \<Longrightarrow> \<not> isWhiteSpace c"
  by (auto simp: isDigit_def isWhiteSpace_def)

lemma dquote_class: "\<not> isDigit dquote" "\<not> isWhiteSpace dquote"
  by (simp_all add: isDigit_def isWhiteSpace_def dquote_def)

lemma last_dropWhile: "dropWhile P xs \<noteq> [] \<Longrightarrow> last (dropWhile P xs) = last xs"
  by (induction xs) (auto split: if_splits)

lemma trim_ends:
  assumes "trim s \<noteq> []"
  shows "\<not> isWhiteSpace (hd (trim s)) \<and> \<not> isWhiteSpace (last (trim s))"
proof -
  let ?t = "dropWhile isWhiteSpace s"
  let ?u = "dropWhile isWhiteSpace (rev ?t)"
  from assms have u: "?u \<noteq> []"
    by (simp add: trim_def)
  have t: "?t \<noteq> []"
  proof
    assume e: "?t = []"
    have "?u = []"
      unfolding e by simp
    with u show False
      by simp
  qed
  from u have "\<not> isWhiteSpace (hd ?u)"
    by (rule hd_dropWhile)
  with u have l: "\<not> isWhiteSpace (last (trim s))"
    by (simp add: trim_def last_rev)
  from u have "last ?u = last (rev ?t)"
    by (rule last_dropWhile)
  with t have "last ?u = hd ?t"
    by (simp add: last_rev)
  moreover from t have "\<not> isWhiteSpace (hd ?t)"
    by (rule hd_dropWhile)
  ultimately have "\<not> isWhiteSpace (hd (trim s))"
    using u by (simp add: trim_def hd_rev)
  with l show ?thesis
    by simp
qed

lemma trim_id:
  assumes "s = [] \<or> (\<not> isWhiteSpace (hd s) \<and> \<not> isWhiteSpace (last s))"
  shows "trim s = s"
proof (cases "s = []")
  case True
  then show ?thesis
    by (simp add: trim_def)
next
  case False
  with assms have h: "\<not> isWhiteSpace (hd s)" and l: "\<not> isWhiteSpace (last s)"
    by simp_all
  from h have "dropWhile isWhiteSpace s = s"
    by (simp add: dropWhile_eq_self_iff)
  moreover from False l have "dropWhile isWhiteSpace (rev s) = rev s"
    by (simp add: dropWhile_eq_self_iff hd_rev)
  ultimately show ?thesis
    by (simp add: trim_def)
qed

lemma matchInches_intro:
  assumes "ds \<noteq> []" and "list_all isDigit ds" and "list_all isWhiteSpace w0"
    and "list_all isWhiteSpace w1" and "list_all isWhiteSpace w2"
  shows "matchInches (w0 @ ds @ w1 @ dquote # w2) = Some ds"
proof -
  let ?rest = "w1 @ dquote # w2"
  from assms(1) obtain d ds' where ds: "ds = d # ds'"
    by (cases ds) auto
  with assms(2) have d: "\<not> isWhiteSpace d"
    by (simp add: digit_not_space)
  from assms(3) have s1: "dropWhile isWhiteSpace (w0 @ ds @ ?rest) = ds @ ?rest"
    using d by (simp add: list_all_iff dropWhile_append2 ds)
  have nodigit: "takeWhile isDigit ?rest = [] \<and> dropWhile isDigit ?rest = ?rest"
  proof (cases w1)
    case Nil
    then show ?thesis
      by (simp add: dquote_class)
  next
    case (Cons w ws)
    with assms(4) have "\<not> isDigit w"
      using digit_not_space by auto
    with Cons show ?thesis
      by simp
  qed
  from assms(2) have tk: "takeWhile isDigit (ds @ ?rest) = ds"
    using nodigit by (simp add: list_all_iff takeWhile_append2)
  from assms(2) have dr: "dropWhile isDigit (ds @ ?rest) = ?rest"
    using nodigit by (simp add: list_all_iff dropWhile_append2)
  from assms(4) have s2: "dropWhile isWhiteSpace ?rest = dquote # w2"
    by (simp add: list_all_iff dropWhile_append2 dquote_class)
  from assms(5) have s3: "dropWhile isWhiteSpace w2 = []"
    by (simp add: list_all_iff)
  show ?thesis
    unfolding matchInches_def Let_def s1 tk dr s2
    using assms(1) s3 by simp
qed

lemma matchInches_elim:
  assumes "matchInches n = Some ds"
  shows "ds \<noteq> [] \<and> list_all isDigit ds
         \<and> (\<exists>w0 w1 w2. list_all isWhiteSpace w0 \<and> list_all isWhiteSpace w1
               \<and> list_all isWhiteSpace w2 \<and> n = w0 @ ds @ w1 @ dquote # w2)"
proof -
  let ?w0 = "takeWhile isWhiteSpace n"
  let ?s1 = "dropWhile isWhiteSpace n"
  let ?w1 = "takeWhile isWhiteSpace (dropWhile isDigit ?s1)"
  let ?s2 = "dropWhile isWhiteSpace (dropWhile isDigit ?s1)"
  from assms obtain s3 where s2: "?s2 = dquote # s3" and ds: "ds = takeWhile isDigit ?s1"
    and ne: "ds \<noteq> []" and s3: "dropWhile isWhiteSpace s3 = []"
    by (auto simp: matchInches_def Let_def split: list.splits if_splits)
  have "n = ?w0 @ ?s1"
    by simp
  also have "?s1 = ds @ dropWhile isDigit ?s1"
    by (simp add: ds)
  also have "dropWhile isDigit ?s1 = ?w1 @ ?s2"
    by simp
  finally have n: "n = ?w0 @ ds @ ?w1 @ dquote # s3"
    by (simp only: s2)
  have dig: "list_all isDigit ds"
    by (auto simp: ds list_all_iff dest: set_takeWhileD)
  have w0: "list_all isWhiteSpace ?w0" and w1: "list_all isWhiteSpace ?w1"
    by (auto simp: list_all_iff dest: set_takeWhileD)
  from s3 have w2: "list_all isWhiteSpace s3"
    by (simp add: list_all_iff)
  from ne dig w0 w1 w2 n show ?thesis
    by blast
qed

lemma matchInches_trimmed:
  assumes "matchInches (trim name) = Some ds"
  shows "ds \<noteq> [] \<and> list_all isDigit ds
         \<and> (\<exists>ws. list_all isWhiteSpace ws \<and> trim name = ds @ ws @ [dquote])"
proof -
  from matchInches_elim [OF assms] obtain w0 w1 w2
    where ne: "ds \<noteq> []" and dig: "list_all isDigit ds"
      and w: "list_all isWhiteSpace w0" "list_all isWhiteSpace w1" "list_all isWhiteSpace w2"
      and n: "trim name = w0 @ ds @ w1 @ dquote # w2"
    by blast
  from n have nonempty: "trim name \<noteq> []"
    by simp
  note ends = trim_ends [OF nonempty]
  have "w0 = []"
  proof (rule ccontr)
    assume "w0 \<noteq> []"
    then have "hd (trim name) = hd w0" and "hd w0 \<in> set w0"
      by (simp_all add: n)
    with w(1) ends show False
      by (simp add: list_all_iff)
  qed
  moreover have "w2 = []"
  proof (rule ccontr)
    assume "w2 \<noteq> []"
    then have "last (trim name) = last w2" and "last w2 \<in> set w2"
      by (simp_all add: n)
    with w(3) ends show False
      by (simp add: list_all_iff)
  qed
  ultimately have "trim name = ds @ w1 @ [dquote]"
    using n by simp
  with ne dig w(2) show ?thesis
    by blast
qed

lemma no_dquote_no_inches:
  assumes "dquote \<notin> set n"
  shows "matchInches n = None"
proof (cases "matchInches n")
  case None
  then show ?thesis .
next
  case (Some ds)
  from matchInches_elim [OF this] have "dquote \<in> set n"
    by auto
  with assms show ?thesis
    by simp
qed

lemma testIgnoreCase_no_dquote:
  assumes "testIgnoreCase pat n" and "dquote \<notin> set (map upperAscii pat)"
  shows "dquote \<notin> set n"
proof
  assume "dquote \<in> set n"
  then have "upperAscii dquote \<in> set (map upperAscii n)"
    by simp
  moreover have "upperAscii dquote = dquote"
    by (simp add: upperAscii_def dquote_def)
  moreover from assms(1) have "map upperAscii n = map upperAscii pat"
    by (simp add: testIgnoreCase_def)
  ultimately have "dquote \<in> set (map upperAscii pat)"
    by (simp only: )
  with assms(2) show False
    by (simp only: not_True_eq_False)
qed


lemma token_no_inches:
  assumes "testIgnoreCase pat n" and "pat \<in> {''reg'', ''med'', ''large''}"
  shows "matchInches n = None"
proof -
  from assms(2) have "dquote \<notin> set (map upperAscii pat)"
    by (auto simp: upperAscii_def dquote_def)
  with assms(1) have "dquote \<notin> set n"
    by (rule testIgnoreCase_no_dquote)
  then show ?thesis
    by (rule no_dquote_no_inches)
qed

lemma tokens_distinct:
  "\<not> (testIgnoreCase ''reg'' n \<and> testIgnoreCase ''med'' n)"
  "\<not> (testIgnoreCase ''reg'' n \<and> testIgnoreCase ''large'' n)"
  "\<not> (testIgnoreCase ''med'' n \<and> testIgnoreCase ''large'' n)"
  by (auto simp: testIgnoreCase_def upperAscii_def)

text \<open>
  C4, as the claim states it, fails: the label \<open>Half\<close> followed by a space is neither
  digits followed by a double quote nor one of the three tokens, and it is not returned
  unchanged, since the function trims it.
\<close>

theorem normalizeVariantName_counterexample:
  "last ''Half '' \<noteq> dquote
   \<and> \<not> testIgnoreCase ''reg'' ''Half ''
   \<and> \<not> testIgnoreCase ''med'' ''Half ''
   \<and> \<not> testIgnoreCase ''large'' ''Half ''
   \<and> normalizeVariantName ''Half '' = ''Half''
   \<and> normalizeVariantName ''Half '' \<noteq> ''Half ''"
  by (simp add: normalizeVariantName_def matchInches_def dquote_def string_defs)

text \<open>
  C4, amended. \<open>normalizeVariantName\<close> first trims the label. A trimmed label that is
  digits, then any white space, then a double quote gives the digits followed by
  \<open>inches\<close> (so a label that is just digits and a double quote does); a trimmed label
  that is \<open>reg\<close>, \<open>med\<close> or \<open>large\<close> in any letter case gives \<open>Regular\<close>, \<open>Medium\<close> or
  \<open>Large\<close>; every other label is returned trimmed, which is the label itself when it
  neither starts nor ends with white space.
\<close>

theorem normalizeVariantName_spec:
  "(ds \<noteq> [] \<and> list_all isDigit ds \<and> list_all isWhiteSpace ws
      \<and> trim name = ds @ ws @ [dquote]
      \<longrightarrow> normalizeVariantName name = ds @ '' inches'')
   \<and> (ds \<noteq> [] \<and> list_all isDigit ds
      \<longrightarrow> normalizeVariantName (ds @ [dquote]) = ds @ '' inches'')
   \<and> (testIgnoreCase ''reg'' (trim name) \<longrightarrow> normalizeVariantName name = ''Regular'')
   \<and> (testIgnoreCase ''med'' (trim name) \<longrightarrow> normalizeVariantName name = ''Medium'')
   \<and> (testIgnoreCase ''large'' (trim name) \<longrightarrow> normalizeVariantName name = ''Large'')
   \<and> ((\<forall>ds' ws'. \<not> (ds' \<noteq> [] \<and> list_all isDigit ds' \<and> list_all isWhiteSpace ws'
                      \<and> trim name = ds' @ ws' @ [dquote]))
       \<and> \<not> testIgnoreCase ''reg'' (trim name)
       \<and> \<not> testIgnoreCase ''med'' (trim name)
       \<and> \<not> testIgnoreCase ''large'' (trim name)
      \<longrightarrow> normalizeVariantName name = trim name)
   \<and> (name = [] \<or> (\<not> isWhiteSpace (hd name) \<and> \<not> isWhiteSpace (last name))
      \<longrightarrow> trim name = name)"
proof -
  have inch: "normalizeVariantName name = ds @ '' inches''"
    if "ds \<noteq> []" "list_all isDigit ds" "list_all isWhiteSpace ws"
       "trim name = ds @ ws @ [dquote]" for name ds ws
  proof -
    from that(1-3) have "matchInches ([] @ ds @ ws @ dquote # []) = Some ds"
      by (intro matchInches_intro) simp_all
    with that(4) show ?thesis
      by (simp add: normalizeVariantName_def)
  qed
  have plain: "normalizeVariantName (ds @ [dquote]) = ds @ '' inches''"
    if "ds \<noteq> []" "list_all isDigit ds"
  proof -
    from that obtain d ds' where "ds = d # ds'" "\<not> isWhiteSpace d"
      by (cases ds) (auto simp: digit_not_space)
    then have "trim (ds @ [dquote]) = ds @ [] @ [dquote]"
      by (simp add: trim_id dquote_class)
    with that show ?thesis
      using inch [of ds "[]" "ds @ [dquote]"] by simp
  qed
  have reg: "normalizeVariantName name = ''Regular''" if "testIgnoreCase ''reg'' (trim name)"
    using that token_no_inches [OF that] by (simp add: normalizeVariantName_def)
  have med: "normalizeVariantName name = ''Medium''" if "testIgnoreCase ''med'' (trim name)"
    using that token_no_inches [OF that] tokens_distinct [of "trim name"]
    by (auto simp: normalizeVariantName_def)
  have large: "normalizeVariantName name = ''Large''" if "testIgnoreCase ''large'' (trim name)"
    using that token_no_inches [OF that] tokens_distinct [of "trim name"]
    by (auto simp: normalizeVariantName_def)
  have other: "normalizeVariantName name = trim name"
    if "\<forall>ds' ws'. \<not> (ds' \<noteq> [] \<and> list_all isDigit ds' \<and> list_all isWhiteSpace ws'
                      \<and> trim name = ds' @ ws' @ [dquote])"
       "\<not> testIgnoreCase ''reg'' (trim name)" "\<not> testIgnoreCase ''med'' (trim name)"
       "\<not> testIgnoreCase ''large'' (trim name)"
  proof -
    have "matchInches (trim name) = None"
    proof (cases "matchInches (trim name)")
      case None
      then show ?thesis .
    next
      case (Some ds')
      from matchInches_trimmed [OF this] that(1) show ?thesis
        by blast
    qed
    with that(2-4) show ?thesis
      by (simp add: normalizeVariantName_def)
  qed
  have unchanged: "trim name = name"
    if "name = [] \<or> (\<not> isWhiteSpace (hd name) \<and> \<not> isWhiteSpace (last name))"
    using that by (rule trim_id)
  from inch plain reg med large other unchanged show ?thesis
    by blast
qed


theorem normalizeVariantName_spec_witness:
  \<open>normalizeVariantName '' 7 " '' = ''7 inches''
   \<and> normalizeVariantName ''10"'' = ''10 inches''
   \<and> normalizeVariantName '' ReG '' = ''Regular''
   \<and> normalizeVariantName ''MED'' = ''Medium''
   \<and> normalizeVariantName ''large'' = ''Large''
   \<and> normalizeVariantName ''Half '' = ''Half''
   \<and> trim ''Full'' = ''Full''\<close>
proof -
  have t: \<open>trim '' 7 " '' = ''7'' @ '' '' @ [dquote]\<close> "trim '' ReG '' = ''ReG''"
    "trim ''MED'' = ''MED''" "trim ''large'' = ''large''" "trim ''Half '' = ''Half''"
    by (simp_all add: string_defs dquote_def)
  have ten: \<open>''10"'' = ''10'' @ [dquote]\<close>
    by (simp add: dquote_def)
  have other: "\<forall>ds' ws'. \<not> (ds' \<noteq> [] \<and> list_all isDigit ds' \<and> list_all isWhiteSpace ws'
                      \<and> trim ''Half '' = ds' @ ws' @ [dquote])"
  proof (intro allI notI)
    fix ds' ws' :: string
    assume "ds' \<noteq> [] \<and> list_all isDigit ds' \<and> list_all isWhiteSpace ws'
              \<and> trim ''Half '' = ds' @ ws' @ [dquote]"
    then have "last (trim ''Half '') = last (ds' @ ws' @ [dquote])"
      by simp
    then show False
      by (simp add: t dquote_def)
  qed
  note ev = t ten isDigit_def isWhiteSpace_def testIgnoreCase_def upperAscii_def
  have c1: \<open>normalizeVariantName '' 7 " '' = ''7 inches''\<close>
    using normalizeVariantName_spec [of "''7''" "'' ''" \<open>'' 7 " ''\<close>] by (simp add: ev)
  have c2: \<open>normalizeVariantName ''10"'' = ''10 inches''\<close>
    using normalizeVariantName_spec [of "''10''"] by (simp add: ev)
  have c3: "normalizeVariantName '' ReG '' = ''Regular''"
    using normalizeVariantName_spec [where name = "'' ReG ''"] by (simp add: ev)
  have c4: "normalizeVariantName ''MED'' = ''Medium''"
    using normalizeVariantName_spec [where name = "''MED''"] by (simp add: ev)
  have c5: "normalizeVariantName ''large'' = ''Large''"
    using normalizeVariantName_spec [where name = "''large''"] by (simp add: ev)
  have c6: "normalizeVariantName ''Half '' = ''Half''"
    using normalizeVariantName_spec [where name = "''Half ''"] other by (simp add: ev)
  have c7: "trim ''Full'' = ''Full''"
    using normalizeVariantName_spec [where name = "''Full''"] by (simp add: ev)
  from c1 c2 c3 c4 c5 c6 c7 show ?thesis
    by (intro conjI)
qed


end
